theory Spec2Isabelle
  imports Main "HOL-Library.Sublist"
begin

section \<open>Data model of package groupservice\<close>

text \<open>
  Go strings are \<^typ>\<open>string\<close>; a Go pointer \<open>*T\<close> is \<^typ>\<open>'a option\<close> with
  \<open>None\<close> for \<open>nil\<close>; dereferencing \<open>nil\<close> panics, which the model makes a value
  of its own. \<open>*map[string][]string\<close> is an optional partial map.
\<close>

type_synonym attrs = "string \<rightharpoonup> string list"

text \<open>
  \<open>CreateGroupRequest\<close> (grouphandler.go) and \<open>CreateCapabilityRequest\<close>
  (create_capability.go) are declared field for field alike, with the same JSON and
  validate tags; one record stands for both. The same holds for the two response structs.
\<close>

record CreateGroupRequest =
  req_Name :: "string option"
  req_Attributes :: "attrs option"

record CreateGroupResponse =
  resp_ID :: string
  resp_Name :: string
  resp_Path :: "string option"
  resp_Attributes :: "attrs option"

text \<open>\<open>gocloak.Group\<close>: the four fields the handlers write or read.\<close>

record Group =
  grp_ID :: "string option"
  grp_Name :: "string option"
  grp_Path :: "string option"
  grp_Attributes :: "attrs option"

section \<open>Collaborators outside the repository\<close>

text \<open>
  The handlers call into \<open>alya/router\<close>, \<open>alya/wscutils\<close>, \<open>validator/v10\<close>,
  \<open>gocloak\<close> and Go's \<open>context\<close>. None of them is part of the repository. The
  validator is given the behaviour of the library; each of the others is given the
  behaviour the specification ascribes to it. The handlers below are translated from the
  source against these.
\<close>

subsection \<open>wscutils: envelopes\<close>

record ErrorMessage =
  msg_Field :: "string option"
  msg_ErrCode :: string
  msg_Vals :: "string list"

record Response =
  Status :: string
  Data :: "CreateGroupResponse option"
  Messages :: "ErrorMessage list"

definition ErrorStatus :: string where
  "ErrorStatus = ''error''"

definition NewResponse :: "string \<Rightarrow> CreateGroupResponse option \<Rightarrow> ErrorMessage list \<Rightarrow> Response" where
  "NewResponse status data messages = \<lparr>Status = status, Data = data, Messages = messages\<rparr>"

definition NewErrorResponse :: "string \<Rightarrow> Response" where
  \<comment> \<open>Modelled from the spec: \<open>wscutils.NewErrorResponse\<close>, an envelope with status
      "error" and exactly one message carrying the given code (spec 3 and 4.5).\<close>
  "NewErrorResponse errorCode =
     NewResponse ErrorStatus None [\<lparr>msg_Field = None, msg_ErrCode = errorCode, msg_Vals = []\<rparr>]"

subsection \<open>wscutils: writing the response\<close>

text \<open>How a request ends: with an envelope written to the client, with the handler
  returning without having written one, or with a panic at a \<open>nil\<close> dereference.\<close>

datatype deref = Vals_Name | Conflict_Name | GroupInfo_ID | GroupInfo_Name

datatype outcome =
  Responded Response
| NoResponse
| Panicked deref

definition SendErrorResponse :: "Response \<Rightarrow> outcome" where
  \<comment> \<open>Modelled from the spec: \<open>wscutils.SendErrorResponse\<close> writes the envelope it is
      given (spec 4.5).\<close>
  "SendErrorResponse response = Responded response"

definition SendSuccessResponse :: "Response \<Rightarrow> outcome" where
  \<comment> \<open>Modelled from the spec: \<open>wscutils.SendSuccessResponse\<close> writes the envelope it is
      given (spec 4.5).\<close>
  "SendSuccessResponse response = Responded response"

subsection \<open>gin: the request as the handler sees it\<close>

text \<open>
  The body is either one that the decoder rejects, with the decoder's error, or a JSON
  object with its \<open>name\<close> and \<open>attributes\<close> members, each of which may be missing.
  \<open>Clock\<close> is the time, in milliseconds, at which the handler runs; the handler's own
  steps take no time.
\<close>

datatype request_body =
  NotDecodable string
| JSONObject "string option" "attrs option"

record Context =
  Header :: "string \<rightharpoonup> string"
  Body :: request_body
  Clock :: nat

definition GetHeader :: "Context \<Rightarrow> string \<Rightarrow> string" where
  \<comment> \<open>\<open>gin.Context.GetHeader\<close>: the empty string when the header is absent.\<close>
  "GetHeader c key = (case Header c key of None \<Rightarrow> [] | Some v \<Rightarrow> v)"

definition BindJSON :: "Context \<Rightarrow> string + CreateGroupRequest" where
  \<comment> \<open>Modelled from the spec: \<open>wscutils.BindJSON\<close>, which fails when the body is not
      well-formed JSON of the expected shape and otherwise fills the request struct,
      leaving the pointer of a missing member \<open>nil\<close> (spec 4.2).\<close>
  "BindJSON c =
     (case Body c of
        NotDecodable err \<Rightarrow> Inl err
      | JSONObject name attributes \<Rightarrow> Inr \<lparr>req_Name = name, req_Attributes = attributes\<rparr>)"

subsection \<open>router: the token extractor\<close>

definition ExtractToken :: "string \<Rightarrow> string + string" where
  \<comment> \<open>Modelled from the spec: \<open>router.ExtractToken\<close>, which fails when the header is
      absent, empty or not prefixed with the case-sensitive scheme "Bearer " and yields
      the rest of the header otherwise (spec 4.1).\<close>
  "ExtractToken headerValue =
     (if take 7 headerValue = ''Bearer '' then Inr (drop 7 headerValue)
      else Inl ''missing or malformed authorization header'')"

subsection \<open>validator and wscutils.WscValidate\<close>

record FieldError =
  fe_Field :: string
  fe_Tag :: string

definition required_violated :: "string option \<Rightarrow> bool" where
  \<comment> \<open>The \<open>required\<close> rule of the validator library on a pointer field: violated by
      the \<open>nil\<close> pointer only. A pointer to the empty string passes, so the rule is
      narrower than "present and non-empty" of spec 4.2.\<close>
  "required_violated v = (case v of None \<Rightarrow> True | Some s \<Rightarrow> False)"

definition validate_Struct :: "CreateGroupRequest \<Rightarrow> FieldError list" where
  \<comment> \<open>The struct's only tagged field is \<open>Name `json:"name" validate:"required"`\<close>. The
      violation carries the name of the Go field, \<open>Name\<close>, as its \<open>Field()\<close>: the
      library reports the JSON name only when a tag-name function is registered.\<close>
  "validate_Struct req =
     (if required_violated (req_Name req) then [\<lparr>fe_Field = ''Name'', fe_Tag = ''required''\<rparr>]
      else [])"

fun build_messages :: "(FieldError \<Rightarrow> deref + string list) \<Rightarrow> FieldError list \<Rightarrow> deref + ErrorMessage list" where
  "build_messages getVals [] = Inr []"
| "build_messages getVals (e # es) =
     (case getVals e of
        Inl p \<Rightarrow> Inl p
      | Inr vals \<Rightarrow>
          (case build_messages getVals es of
             Inl p \<Rightarrow> Inl p
           | Inr ms \<Rightarrow> Inr (\<lparr>msg_Field = Some (fe_Field e), msg_ErrCode = fe_Tag e, msg_Vals = vals\<rparr> # ms)))"

definition WscValidate :: "CreateGroupRequest \<Rightarrow> (FieldError \<Rightarrow> deref + string list) \<Rightarrow> deref + ErrorMessage list" where
  \<comment> \<open>Modelled from the spec: \<open>wscutils.WscValidate\<close>, one \<open>ValidationError\<close> with field,
      code and context per violation, the context obtained from the callback (spec 3 and
      4.2). A panic of the callback ends the validation.\<close>
  "WscValidate req getVals = build_messages getVals (validate_Struct req)"

subsection \<open>context and the gocloak client\<close>

text \<open>
  Time is a logical clock in milliseconds. A context with a timeout is its deadline. The
  provider is a mock: for the arguments of a call it tells how long the provider takes
  and what it answers, \<open>Inl\<close> a raw error string.
\<close>

record GoCloak =
  CreateGroup_reply :: "string \<Rightarrow> string \<Rightarrow> Group \<Rightarrow> nat \<times> (string + string)"
  GetGroup_reply :: "string \<Rightarrow> string \<Rightarrow> string \<Rightarrow> nat \<times> (string + Group)"

record Service =
  dep_goclock :: GoCloak
  dep_realm :: string

definition WithTimeout :: "nat \<Rightarrow> nat \<Rightarrow> nat" where
  \<comment> \<open>\<open>context.WithTimeout\<close>: the deadline is the time of the call plus the timeout.\<close>
  "WithTimeout now timeout = now + timeout"

definition DeadlineExceeded :: string where
  "DeadlineExceeded = ''context deadline exceeded''"

definition under_deadline :: "nat \<Rightarrow> nat \<Rightarrow> nat \<times> (string + 'a) \<Rightarrow> nat \<times> (string + 'a)" where
  \<comment> \<open>Modelled from the spec: a call under a context started at \<open>now\<close> fails at the
      deadline when the provider takes longer, and returns the provider's answer
      otherwise (spec 4.3). The result is paired with the time at which the call returns.\<close>
  "under_deadline ctx now reply =
     (if ctx < now + fst reply then (ctx, Inl DeadlineExceeded) else (now + fst reply, snd reply))"

definition CreateGroup :: "GoCloak \<Rightarrow> nat \<Rightarrow> nat \<Rightarrow> string \<Rightarrow> string \<Rightarrow> Group \<Rightarrow> nat \<times> (string + string)" where
  "CreateGroup client ctx now token realm grp =
     under_deadline ctx now (CreateGroup_reply client token realm grp)"

definition GetGroup :: "GoCloak \<Rightarrow> nat \<Rightarrow> nat \<Rightarrow> string \<Rightarrow> string \<Rightarrow> string \<Rightarrow> nat \<times> (string + Group)" where
  "GetGroup client ctx now token realm groupID =
     under_deadline ctx now (GetGroup_reply client token realm groupID)"

text \<open>The provider calls a handler made, each with the deadline of its context, the
  time it started and its arguments.\<close>

datatype provider_call =
  CreateGroupCall nat nat string string Group
| GetGroupCall nat nat string string string

section \<open>Constants of the handlers\<close>

definition Second :: nat where
  \<comment> \<open>\<open>time.Second\<close> on the millisecond clock\<close>
  "Second = 1000"

definition Unauthorized_error :: string where
  "Unauthorized_error = ''401 Unauthorized: HTTP 401 Unauthorized''"

definition conflict_template :: "string \<Rightarrow> string" where
  \<comment> \<open>\<open>fmt.Sprintf("409 Conflict: Top level group named '%s' already exists.", name)\<close>\<close>
  "conflict_template name =
     ''409 Conflict: Top level group named '' @ [CHR 0x27] @ name @ [CHR 0x27] @ '' already exists.''"

section \<open>grouphandler.go\<close>

text \<open>
  A handler yields how the request ended together with the provider calls it made, in
  order. Logging is left out: it has no effect on either.
\<close>

definition CreateGroupRequest_getValsForCreateCapabilityError :: "CreateGroupRequest \<Rightarrow> FieldError \<Rightarrow> deref + string list" where
  \<comment> \<open>\<open>(req *CreateGroupRequest) getValsForCreateCapabilityError\<close>; \<open>*req.Name\<close> panics
      on a \<open>nil\<close> pointer.\<close>
  "CreateGroupRequest_getValsForCreateCapabilityError req err =
     (if fe_Field err = ''name'' then
        (if fe_Tag err = ''required'' then
           (case req_Name req of
              None \<Rightarrow> Inl Vals_Name
            | Some name \<Rightarrow> Inr (([] @ [''group name is required'']) @ [name]))
         else Inr [])
      else Inr [])"

definition validateCreateGroup :: "CreateGroupRequest \<Rightarrow> deref + ErrorMessage list" where
  "validateCreateGroup req =
     (case WscValidate req (CreateGroupRequest_getValsForCreateCapabilityError req) of
        Inl p \<Rightarrow> Inl p
      | Inr validationErrors \<Rightarrow>
          (if length validationErrors > 0 then Inr validationErrors else Inr validationErrors))"

definition HandleGroupCreationRequest :: "Context \<Rightarrow> Service \<Rightarrow> outcome \<times> provider_call list" where
  "HandleGroupCreationRequest c s =
     (case ExtractToken (GetHeader c ''Authorization'') of
        Inl err \<Rightarrow> (SendErrorResponse (NewErrorResponse ''token_missing''), [])
      | Inr token \<Rightarrow>
     (case BindJSON c of
        Inl err \<Rightarrow> (SendErrorResponse (NewErrorResponse ''invalid_json''), [])
      | Inr createGroupReq \<Rightarrow>
     (case validateCreateGroup createGroupReq of
        Inl p \<Rightarrow> (Panicked p, [])
      | Inr validationErrors \<Rightarrow>
     if length validationErrors > 0
     then (SendErrorResponse (NewResponse ErrorStatus None validationErrors), [])
     else
       let client = dep_goclock s;
           realm = dep_realm s;
           ctx = WithTimeout (Clock c) (10 * Second);
           grp = \<lparr>grp_ID = None, grp_Name = req_Name createGroupReq, grp_Path = None,
                  grp_Attributes = req_Attributes createGroupReq\<rparr>;
           created = CreateGroup client ctx (Clock c) token realm grp;
           calls = [CreateGroupCall ctx (Clock c) token realm grp]
       in
       (case snd created of
          Inl err \<Rightarrow>
            (case req_Name createGroupReq of
               None \<Rightarrow> (Panicked Conflict_Name, calls)
             | Some name \<Rightarrow>
                 let conflictErr = conflict_template name in
                 if err = Unauthorized_error
                 then (SendErrorResponse (NewErrorResponse ''Unauthorized''), calls)
                 else if err = conflictErr
                 then (SendErrorResponse (NewErrorResponse ''name already exist''), calls)
                 else (SendErrorResponse (NewErrorResponse ''unknown''), calls))
        | Inr groupCreationID \<Rightarrow>
            let fetched = GetGroup client ctx (fst created) token realm groupCreationID;
                calls = calls @ [GetGroupCall ctx (fst created) token realm groupCreationID]
            in
            (case snd fetched of
               Inl err \<Rightarrow> (NoResponse, calls)
             | Inr groupInfo \<Rightarrow>
                 (case grp_ID groupInfo of
                    None \<Rightarrow> (Panicked GroupInfo_ID, calls)
                  | Some gid \<Rightarrow>
                 (case grp_Name groupInfo of
                    None \<Rightarrow> (Panicked GroupInfo_Name, calls)
                  | Some gname \<Rightarrow>
                      (SendSuccessResponse
                         \<lparr>Status = ''success'',
                          Data = Some \<lparr>resp_ID = gid, resp_Name = gname,
                                       resp_Path = grp_Path groupInfo,
                                       resp_Attributes = grp_Attributes groupInfo\<rparr>,
                          Messages = []\<rparr>,
                       calls))))))))"

section \<open>create_capability.go\<close>

definition CreateCapabilityRequest_getValsForCreateCapabilityError :: "CreateGroupRequest \<Rightarrow> FieldError \<Rightarrow> deref + string list" where
  \<comment> \<open>\<open>(req *CreateCapabilityRequest) getValsForCreateCapabilityError\<close>\<close>
  "CreateCapabilityRequest_getValsForCreateCapabilityError req err =
     (if fe_Field err = ''name'' then
        (if fe_Tag err = ''required'' then
           (case req_Name req of
              None \<Rightarrow> Inl Vals_Name
            | Some name \<Rightarrow> Inr (([] @ [''Capability name is required'']) @ [name]))
         else Inr [])
      else Inr [])"

definition validateCreateCapability :: "CreateGroupRequest \<Rightarrow> deref + ErrorMessage list" where
  "validateCreateCapability req =
     (case WscValidate req (CreateCapabilityRequest_getValsForCreateCapabilityError req) of
        Inl p \<Rightarrow> Inl p
      | Inr validationErrors \<Rightarrow>
          (if length validationErrors > 0 then Inr validationErrors else Inr validationErrors))"

definition HandleCapabilityCreateRequest :: "Context \<Rightarrow> Service \<Rightarrow> outcome \<times> provider_call list" where
  "HandleCapabilityCreateRequest c s =
     (case ExtractToken (GetHeader c ''Authorization'') of
        Inl err \<Rightarrow> (SendErrorResponse (NewErrorResponse ''token_missing''), [])
      | Inr token \<Rightarrow>
     (case BindJSON c of
        Inl err \<Rightarrow> (SendErrorResponse (NewErrorResponse ''invalid_json''), [])
      | Inr createCapabilityReq \<Rightarrow>
     (case validateCreateCapability createCapabilityReq of
        Inl p \<Rightarrow> (Panicked p, [])
      | Inr validationErrors \<Rightarrow>
     if length validationErrors > 0
     then (SendErrorResponse (NewResponse ErrorStatus None validationErrors), [])
     else
       let client = dep_goclock s;
           realm = dep_realm s;
           ctx = WithTimeout (Clock c) (10 * Second);
           grp = \<lparr>grp_ID = None, grp_Name = req_Name createCapabilityReq, grp_Path = None,
                  grp_Attributes = req_Attributes createCapabilityReq\<rparr>;
           created = CreateGroup client ctx (Clock c) token realm grp;
           calls = [CreateGroupCall ctx (Clock c) token realm grp]
       in
       (case snd created of
          Inl err \<Rightarrow>
            (case req_Name createCapabilityReq of
               None \<Rightarrow> (Panicked Conflict_Name, calls)
             | Some name \<Rightarrow>
                 let conflictErr = conflict_template name in
                 if err = Unauthorized_error
                 then (SendErrorResponse (NewErrorResponse ''Unauthorized''), calls)
                 else if err = conflictErr
                 then (SendErrorResponse (NewErrorResponse ''name already exist''), calls)
                 else (SendErrorResponse (NewErrorResponse ''unknown''), calls))
        | Inr capabilityCreationID \<Rightarrow>
            let fetched = GetGroup client ctx (fst created) token realm capabilityCreationID;
                calls = calls @ [GetGroupCall ctx (fst created) token realm capabilityCreationID]
            in
            (case snd fetched of
               Inl err \<Rightarrow> (NoResponse, calls)
             | Inr groupInfo \<Rightarrow>
                 (case grp_ID groupInfo of
                    None \<Rightarrow> (Panicked GroupInfo_ID, calls)
                  | Some gid \<Rightarrow>
                 (case grp_Name groupInfo of
                    None \<Rightarrow> (Panicked GroupInfo_Name, calls)
                  | Some gname \<Rightarrow>
                      (SendSuccessResponse
                         \<lparr>Status = '''',
                          Data = Some \<lparr>resp_ID = gid, resp_Name = gname,
                                       resp_Path = grp_Path groupInfo,
                                       resp_Attributes = grp_Attributes groupInfo\<rparr>,
                          Messages = []\<rparr>,
                       calls))))))))"

section \<open>What a client sees of an outcome\<close>

definition status_of :: "outcome \<Rightarrow> string option" where
  "status_of out = (case out of Responded r \<Rightarrow> Some (Status r) | _ \<Rightarrow> None)"

definition data_of :: "outcome \<Rightarrow> CreateGroupResponse option" where
  "data_of out = (case out of Responded r \<Rightarrow> Data r | _ \<Rightarrow> None)"

definition messages_of :: "outcome \<Rightarrow> ErrorMessage list" where
  "messages_of out = (case out of Responded r \<Rightarrow> Messages r | _ \<Rightarrow> [])"

definition codes_of :: "outcome \<Rightarrow> string list" where
  "codes_of out = map msg_ErrCode (messages_of out)"

section \<open>The states of a request and concrete requests\<close>

definition validated :: "Context \<Rightarrow> string \<Rightarrow> CreateGroupRequest \<Rightarrow> bool" where
  \<comment> \<open>The three checks in front of the provider calls have passed: the token is
      extracted, the body is bound to \<open>req\<close> and the validator reports no violation.\<close>
  "validated c token req \<longleftrightarrow>
     ExtractToken (GetHeader c ''Authorization'') = Inr token \<and> BindJSON c = Inr req \<and>
     validate_Struct req = []"

definition group_of :: "CreateGroupRequest \<Rightarrow> Group" where
  \<comment> \<open>\<open>gocloak.Group{Name: req.Name, Attributes: req.Attributes}\<close>\<close>
  "group_of req =
     \<lparr>grp_ID = None, grp_Name = req_Name req, grp_Path = None, grp_Attributes = req_Attributes req\<rparr>"

definition create_call :: "Context \<Rightarrow> Service \<Rightarrow> string \<Rightarrow> CreateGroupRequest \<Rightarrow> nat \<times> (string + string)" where
  \<comment> \<open>The create call as both handlers make it: under the context created at the
      handler's clock with a timeout of ten seconds.\<close>
  "create_call c s token req =
     CreateGroup (dep_goclock s) (WithTimeout (Clock c) (10 * Second)) (Clock c) token (dep_realm s)
       (group_of req)"

definition request :: "string option \<Rightarrow> request_body \<Rightarrow> Context" where
  "request authorization body =
     \<lparr>Header = (\<lambda>key. if key = ''Authorization'' then authorization else None),
      Body = body, Clock = 0\<rparr>"

definition mock :: "nat \<times> (string + string) \<Rightarrow> nat \<times> (string + Group) \<Rightarrow> Service" where
  "mock created fetched =
     \<lparr>dep_goclock = \<lparr>CreateGroup_reply = (\<lambda>token realm grp. created),
                      GetGroup_reply = (\<lambda>token realm groupID. fetched)\<rparr>,
      dep_realm = ''idshield''\<rparr>"

definition Admins :: Group where
  "Admins = \<lparr>grp_ID = Some ''g-1'', grp_Name = Some ''Admins'', grp_Path = Some ''/Admins'',
             grp_Attributes = None\<rparr>"

definition not_found :: string where
  "not_found = ''404 Not Found: Could not find group by id''"

definition Admins_exists :: string where
  "Admins_exists = ''409 Conflict: Top level group named '' @ [CHR 0x27] @ ''Admins'' @ [CHR 0x27] @ '' already exists.''"

section \<open>Basic facts\<close>

lemmas collaborator_defs =
  GetHeader_def BindJSON_def ExtractToken_def required_violated_def validate_Struct_def
  WscValidate_def WithTimeout_def DeadlineExceeded_def under_deadline_def CreateGroup_def
  GetGroup_def NewResponse_def NewErrorResponse_def ErrorStatus_def Second_def
  Unauthorized_error_def conflict_template_def SendErrorResponse_def SendSuccessResponse_def
  Let_def

lemmas handler_defs =
  HandleGroupCreationRequest_def HandleCapabilityCreateRequest_def
  validateCreateGroup_def validateCreateCapability_def
  CreateGroupRequest_getValsForCreateCapabilityError_def CreateCapabilityRequest_getValsForCreateCapabilityError_def

lemmas scenario_defs =
  request_def mock_def Admins_def not_found_def Admins_exists_def group_of_def create_call_def
  validated_def

lemmas view_defs = status_of_def data_of_def messages_of_def codes_of_def

lemma validate_Struct_passes:
  "validate_Struct req = [] \<longleftrightarrow> (\<exists>name. req_Name req = Some name)"
  by (cases "req_Name req") (simp_all add: validate_Struct_def required_violated_def)

lemma validate_passed:
  assumes "validate_Struct req = []"
  shows "validateCreateGroup req = Inr []" and "validateCreateCapability req = Inr []"
  using assms by (simp_all add: validateCreateGroup_def validateCreateCapability_def WscValidate_def)

text \<open>A \<open>nil\<close> name is the one violation. The callbacks look for the field \<open>name\<close>, the
  violation is of the field \<open>Name\<close>: neither callback adds any context, and neither
  reaches its dereference of the \<open>nil\<close> pointer.\<close>

lemma validate_absent:
  assumes "req_Name req = None"
  shows "validateCreateGroup req =
           Inr [\<lparr>msg_Field = Some ''Name'', msg_ErrCode = ''required'', msg_Vals = []\<rparr>]"
    and "validateCreateCapability req =
           Inr [\<lparr>msg_Field = Some ''Name'', msg_ErrCode = ''required'', msg_Vals = []\<rparr>]"
  using assms by (simp_all add: handler_defs collaborator_defs)

lemma Bearer_prefix:
  assumes "take 7 h = ''Bearer ''"
  shows "prefix ''Bearer '' h"
  using assms by (metis take_is_prefix)

text \<open>The handlers on the path where the create call returns an error.\<close>

lemma group_create_failed:
  assumes "validated c token req"
    and "req_Name req = Some name"
    and "snd (create_call c s token req) = Inl err"
  shows "HandleGroupCreationRequest c s =
           (Responded (NewErrorResponse
              (if err = Unauthorized_error then ''Unauthorized''
               else if err = conflict_template name then ''name already exist''
               else ''unknown'')),
            [CreateGroupCall (Clock c + 10000) (Clock c) token (dep_realm s) (group_of req)])"
  using assms
  by (simp add: HandleGroupCreationRequest_def validated_def validate_passed create_call_def
      group_of_def WithTimeout_def Second_def Let_def SendErrorResponse_def)

lemma capability_create_failed:
  assumes "validated c token req"
    and "req_Name req = Some name"
    and "snd (create_call c s token req) = Inl err"
  shows "HandleCapabilityCreateRequest c s =
           (Responded (NewErrorResponse
              (if err = Unauthorized_error then ''Unauthorized''
               else if err = conflict_template name then ''name already exist''
               else ''unknown'')),
            [CreateGroupCall (Clock c + 10000) (Clock c) token (dep_realm s) (group_of req)])"
  using assms
  by (simp add: HandleCapabilityCreateRequest_def validated_def validate_passed create_call_def
      group_of_def WithTimeout_def Second_def Let_def SendErrorResponse_def)

text \<open>The handlers on the path where the create call returns an id.\<close>

lemma group_created:
  assumes "validated c token req"
    and "create_call c s token req = (t, Inr gid)"
  shows "HandleGroupCreationRequest c s =
           (case snd (GetGroup (dep_goclock s) (Clock c + 10000) t token (dep_realm s) gid) of
              Inl err \<Rightarrow> NoResponse
            | Inr groupInfo \<Rightarrow>
                (case grp_ID groupInfo of
                   None \<Rightarrow> Panicked GroupInfo_ID
                 | Some i \<Rightarrow>
                     (case grp_Name groupInfo of
                        None \<Rightarrow> Panicked GroupInfo_Name
                      | Some n \<Rightarrow>
                          Responded \<lparr>Status = ''success'',
                            Data = Some \<lparr>resp_ID = i, resp_Name = n, resp_Path = grp_Path groupInfo,
                                         resp_Attributes = grp_Attributes groupInfo\<rparr>,
                            Messages = []\<rparr>)),
            [CreateGroupCall (Clock c + 10000) (Clock c) token (dep_realm s) (group_of req),
             GetGroupCall (Clock c + 10000) t token (dep_realm s) gid])"
  using assms
  by (simp add: HandleGroupCreationRequest_def validated_def validate_passed create_call_def
      group_of_def WithTimeout_def Second_def Let_def SendSuccessResponse_def
      split: sum.splits option.splits)

lemma capability_created:
  assumes "validated c token req"
    and "create_call c s token req = (t, Inr gid)"
  shows "HandleCapabilityCreateRequest c s =
           (case snd (GetGroup (dep_goclock s) (Clock c + 10000) t token (dep_realm s) gid) of
              Inl err \<Rightarrow> NoResponse
            | Inr groupInfo \<Rightarrow>
                (case grp_ID groupInfo of
                   None \<Rightarrow> Panicked GroupInfo_ID
                 | Some i \<Rightarrow>
                     (case grp_Name groupInfo of
                        None \<Rightarrow> Panicked GroupInfo_Name
                      | Some n \<Rightarrow>
                          Responded \<lparr>Status = '''',
                            Data = Some \<lparr>resp_ID = i, resp_Name = n, resp_Path = grp_Path groupInfo,
                                         resp_Attributes = grp_Attributes groupInfo\<rparr>,
                            Messages = []\<rparr>)),
            [CreateGroupCall (Clock c + 10000) (Clock c) token (dep_realm s) (group_of req),
             GetGroupCall (Clock c + 10000) t token (dep_realm s) gid])"
  using assms
  by (simp add: HandleCapabilityCreateRequest_def validated_def validate_passed create_call_def
      group_of_def WithTimeout_def Second_def Let_def SendSuccessResponse_def
      split: sum.splits option.splits)

text \<open>Every request takes one of five paths through either handler, the same in both.\<close>

lemma handler_paths [case_names token_missing invalid_json absent create_failed created]:
  assumes "\<And>e. ExtractToken (GetHeader c ''Authorization'') = Inl e \<Longrightarrow>
             HandleGroupCreationRequest c s = (Responded (NewErrorResponse ''token_missing''), []) \<Longrightarrow>
             HandleCapabilityCreateRequest c s = (Responded (NewErrorResponse ''token_missing''), []) \<Longrightarrow> P"
    and "\<And>token e. ExtractToken (GetHeader c ''Authorization'') = Inr token \<Longrightarrow> BindJSON c = Inl e \<Longrightarrow>
             HandleGroupCreationRequest c s = (Responded (NewErrorResponse ''invalid_json''), []) \<Longrightarrow>
             HandleCapabilityCreateRequest c s = (Responded (NewErrorResponse ''invalid_json''), []) \<Longrightarrow> P"
    and "\<And>token req. ExtractToken (GetHeader c ''Authorization'') = Inr token \<Longrightarrow> BindJSON c = Inr req \<Longrightarrow>
             req_Name req = None \<Longrightarrow>
             HandleGroupCreationRequest c s =
               (Responded \<lparr>Status = ''error'', Data = None, Messages =
                  [\<lparr>msg_Field = Some ''Name'', msg_ErrCode = ''required'', msg_Vals = []\<rparr>]\<rparr>, []) \<Longrightarrow>
             HandleCapabilityCreateRequest c s =
               (Responded \<lparr>Status = ''error'', Data = None, Messages =
                  [\<lparr>msg_Field = Some ''Name'', msg_ErrCode = ''required'', msg_Vals = []\<rparr>]\<rparr>, []) \<Longrightarrow> P"
    and "\<And>token req name t err. validated c token req \<Longrightarrow> req_Name req = Some name \<Longrightarrow>
             create_call c s token req = (t, Inl err) \<Longrightarrow> P"
    and "\<And>token req name t gid. validated c token req \<Longrightarrow> req_Name req = Some name \<Longrightarrow>
             create_call c s token req = (t, Inr gid) \<Longrightarrow> P"
  shows P
proof (cases "ExtractToken (GetHeader c ''Authorization'')")
  case (Inl e)
  then show P
    by (intro assms(1)[of e])
       (simp_all add: HandleGroupCreationRequest_def HandleCapabilityCreateRequest_def
          SendErrorResponse_def)
next
  case token: (Inr token)
  show P
  proof (cases "BindJSON c")
    case (Inl e)
    with token show P
      by (intro assms(2)[of token e])
         (simp_all add: HandleGroupCreationRequest_def HandleCapabilityCreateRequest_def
            SendErrorResponse_def)
  next
    case req: (Inr req)
    show P
    proof (cases "req_Name req")
      case None
      with token req show P
        by (intro assms(3)[of token req])
           (simp_all add: HandleGroupCreationRequest_def HandleCapabilityCreateRequest_def
              validate_absent SendErrorResponse_def NewResponse_def ErrorStatus_def)
    next
      case (Some name)
      with token req have v: "validated c token req"
        by (simp add: validated_def validate_Struct_passes)
      obtain t r where tr: "create_call c s token req = (t, r)"
        by (cases "create_call c s token req")
      show P
      proof (cases r)
        case (Inl err)
        with v Some tr show P by (intro assms(4)[of token req name t err]) simp_all
      next
        case (Inr gid)
        with v Some tr show P by (intro assms(5)[of token req name t gid]) simp_all
      qed
    qed
  qed
qed

section \<open>The claims\<close>

text \<open>
  C1. Every failure of the pipeline should end in an error envelope with status "error" and
  exactly one message; in particular a get-by-id call that fails after a successful create
  should end in the response for a failed fetch. Both handlers return from that branch
  without writing any response, as this run shows: the create call answers \<open>g-1\<close>, the
  get call answers an error, and the request ends with nothing sent.
\<close>

theorem C1_failed_fetch_sends_nothing:
  "HandleGroupCreationRequest
     (request (Some ''Bearer tok1'') (JSONObject (Some ''Admins'') None))
     (mock (120, Inr ''g-1'') (80, Inl not_found)) =
   (NoResponse,
    [CreateGroupCall 10000 0 ''tok1'' ''idshield''
       \<lparr>grp_ID = None, grp_Name = Some ''Admins'', grp_Path = None, grp_Attributes = None\<rparr>,
     GetGroupCall 10000 120 ''tok1'' ''idshield'' ''g-1'']) \<and>
   HandleCapabilityCreateRequest
     (request (Some ''Bearer tok1'') (JSONObject (Some ''Admins'') None))
     (mock (120, Inr ''g-1'') (80, Inl not_found)) =
   (NoResponse,
    [CreateGroupCall 10000 0 ''tok1'' ''idshield''
       \<lparr>grp_ID = None, grp_Name = Some ''Admins'', grp_Path = None, grp_Attributes = None\<rparr>,
     GetGroupCall 10000 120 ''tok1'' ''idshield'' ''g-1''])"
  by (simp add: handler_defs collaborator_defs scenario_defs)

text \<open>
  C2, amended in the code of the conflict. A raw error of the create call is classified by
  exact match, first match winning: the sentence "401 Unauthorized: HTTP 401 Unauthorized"
  is reported with the code \<open>Unauthorized\<close>, the conflict sentence interpolated with the
  submitted name with the code \<open>name already exist\<close>, anything else with the code
  \<open>unknown\<close>; the envelope has status "error" and this one message, and both handlers
  send the same.
\<close>

theorem C2_create_error_classified:
  assumes "validated c token req"
    and "req_Name req = Some name"
    and "snd (create_call c s token req) = Inl err"
  shows "fst (HandleGroupCreationRequest c s) = fst (HandleCapabilityCreateRequest c s) \<and>
         status_of (fst (HandleCapabilityCreateRequest c s)) = Some ''error'' \<and>
         codes_of (fst (HandleCapabilityCreateRequest c s)) =
           [if err = ''401 Unauthorized: HTTP 401 Unauthorized'' then ''Unauthorized''
            else if err = ''409 Conflict: Top level group named '' @ [CHR 0x27] @ name @
                          [CHR 0x27] @ '' already exists.''
            then ''name already exist''
            else ''unknown'']"
  by (simp add: group_create_failed[OF assms] capability_create_failed[OF assms] view_defs
      NewErrorResponse_def NewResponse_def ErrorStatus_def Unauthorized_error_def
      conflict_template_def)

theorem C2_create_error_classified_witness:
  "validated (request (Some ''Bearer tok1'') (JSONObject (Some ''Admins'') None)) ''tok1''
     \<lparr>req_Name = Some ''Admins'', req_Attributes = None\<rparr> \<and>
   snd (create_call (request (Some ''Bearer tok1'') (JSONObject (Some ''Admins'') None))
          (mock (120, Inl Admins_exists) (80, Inr Admins)) ''tok1''
          \<lparr>req_Name = Some ''Admins'', req_Attributes = None\<rparr>) = Inl Admins_exists \<and>
   codes_of (fst (HandleCapabilityCreateRequest
       (request (Some ''Bearer tok1'') (JSONObject (Some ''Admins'') None))
       (mock (120, Inl Admins_exists) (80, Inr Admins)))) = [''name already exist'']"
proof -
  let ?c = "request (Some ''Bearer tok1'') (JSONObject (Some ''Admins'') None)"
  let ?s = "mock (120, Inl Admins_exists) (80, Inr Admins)"
  let ?req = "\<lparr>req_Name = Some ''Admins'', req_Attributes = None\<rparr>"
  have v: "validated ?c ''tok1'' ?req"
    by (simp add: scenario_defs collaborator_defs)
  have n: "req_Name ?req = Some ''Admins''"
    by simp
  have e: "snd (create_call ?c ?s ''tok1'' ?req) = Inl Admins_exists"
    by (simp add: scenario_defs collaborator_defs)
  from C2_create_error_classified[OF v n e] v e show ?thesis
    by (simp add: Admins_exists_def)
qed

text \<open>C2 as stated fails on a conflict: the create call answers the conflict sentence for
  the submitted name, and the code sent is \<open>name already exist\<close>, not \<open>name_already_exist\<close>.\<close>

theorem C2_conflict_code_counterexample:
  "codes_of (fst (HandleGroupCreationRequest
       (request (Some ''Bearer tok1'') (JSONObject (Some ''Admins'') None))
       (mock (120, Inl Admins_exists) (80, Inr Admins)))) = [''name already exist''] \<and>
   codes_of (fst (HandleCapabilityCreateRequest
       (request (Some ''Bearer tok1'') (JSONObject (Some ''Admins'') None))
       (mock (120, Inl Admins_exists) (80, Inr Admins)))) = [''name already exist''] \<and>
   codes_of (fst (HandleCapabilityCreateRequest
       (request (Some ''Bearer tok1'') (JSONObject (Some ''Admins'') None))
       (mock (120, Inl Admins_exists) (80, Inr Admins)))) \<noteq> [''name_already_exist'']"
  by (simp add: handler_defs collaborator_defs scenario_defs view_defs)

text \<open>
  C3. A request whose body decodes but whose \<open>name\<close> is empty or absent should yield
  exactly one validation error with field \<open>name\<close>, code \<open>required\<close> and the context
  of a message followed by the submitted name (or the empty string when absent), without
  any provider call. The callbacks of both handlers build that context for the field
  \<open>name\<close>, and the violation they are handed is of the field \<open>Name\<close>: with the name
  absent the one error carries the field \<open>Name\<close> and no context at all. With the name
  empty the pointer is not \<open>nil\<close>, no error is raised, and the request goes on to the
  provider, which is asked to create a group with the empty name.
\<close>

theorem C3_absent_name_without_context:
  "HandleGroupCreationRequest
     (request (Some ''Bearer tok1'') (JSONObject None None))
     (mock (120, Inr ''g-1'') (80, Inr Admins)) =
   (Responded \<lparr>Status = ''error'', Data = None, Messages =
      [\<lparr>msg_Field = Some ''Name'', msg_ErrCode = ''required'', msg_Vals = []\<rparr>]\<rparr>, []) \<and>
   HandleCapabilityCreateRequest
     (request (Some ''Bearer tok1'') (JSONObject None None))
     (mock (120, Inr ''g-1'') (80, Inr Admins)) =
   (Responded \<lparr>Status = ''error'', Data = None, Messages =
      [\<lparr>msg_Field = Some ''Name'', msg_ErrCode = ''required'', msg_Vals = []\<rparr>]\<rparr>, []) \<and>
   snd (HandleGroupCreationRequest
     (request (Some ''Bearer tok1'') (JSONObject (Some []) None))
     (mock (120, Inr ''g-1'') (80, Inr Admins))) =
   [CreateGroupCall 10000 0 ''tok1'' ''idshield''
      \<lparr>grp_ID = None, grp_Name = Some [], grp_Path = None, grp_Attributes = None\<rparr>,
    GetGroupCall 10000 120 ''tok1'' ''idshield'' ''g-1''] \<and>
   snd (HandleCapabilityCreateRequest
     (request (Some ''Bearer tok1'') (JSONObject (Some []) None))
     (mock (120, Inr ''g-1'') (80, Inr Admins))) =
   [CreateGroupCall 10000 0 ''tok1'' ''idshield''
      \<lparr>grp_ID = None, grp_Name = Some [], grp_Path = None, grp_Attributes = None\<rparr>,
    GetGroupCall 10000 120 ''tok1'' ''idshield'' ''g-1'']"
  by (simp add: handler_defs collaborator_defs scenario_defs)

text \<open>What holds of C3 for every request with an absent name: one error, its code
  \<open>required\<close>, status "error", no provider call.\<close>

lemma absent_name_rejected:
  assumes "ExtractToken (GetHeader c ''Authorization'') = Inr token"
    and "Body c = JSONObject None attributes"
  shows "snd (HandleGroupCreationRequest c s) = []"
    and "snd (HandleCapabilityCreateRequest c s) = []"
    and "status_of (fst (HandleGroupCreationRequest c s)) = Some ''error''"
    and "status_of (fst (HandleCapabilityCreateRequest c s)) = Some ''error''"
    and "codes_of (fst (HandleGroupCreationRequest c s)) = [''required'']"
    and "codes_of (fst (HandleCapabilityCreateRequest c s)) = [''required'']"
  using assms
  by (simp_all add: HandleGroupCreationRequest_def HandleCapabilityCreateRequest_def
      BindJSON_def validate_absent SendErrorResponse_def NewResponse_def ErrorStatus_def view_defs)

text \<open>
  C4. A request whose Authorization header is absent, empty or not prefixed with the
  case-sensitive scheme \<open>Bearer \<close> is answered with the single code \<open>token_missing\<close>
  under status "error", and no provider call is made.
\<close>

theorem C4_token_missing_without_provider_call:
  assumes "Header c ''Authorization'' = None \<or> Header c ''Authorization'' = Some [] \<or>
           (\<exists>h. Header c ''Authorization'' = Some h \<and> \<not> prefix ''Bearer '' h)"
  shows "HandleGroupCreationRequest c s =
           (Responded \<lparr>Status = ''error'', Data = None, Messages =
              [\<lparr>msg_Field = None, msg_ErrCode = ''token_missing'', msg_Vals = []\<rparr>]\<rparr>, []) \<and>
         HandleCapabilityCreateRequest c s =
           (Responded \<lparr>Status = ''error'', Data = None, Messages =
              [\<lparr>msg_Field = None, msg_ErrCode = ''token_missing'', msg_Vals = []\<rparr>]\<rparr>, [])"
proof -
  have "take 7 (GetHeader c ''Authorization'') \<noteq> ''Bearer ''"
    using assms Bearer_prefix[of "GetHeader c ''Authorization''"]
    by (auto simp: GetHeader_def)
  then obtain e where "ExtractToken (GetHeader c ''Authorization'') = Inl e"
    by (simp add: ExtractToken_def)
  then show ?thesis
    by (simp add: HandleGroupCreationRequest_def HandleCapabilityCreateRequest_def
        SendErrorResponse_def NewErrorResponse_def NewResponse_def ErrorStatus_def)
qed

theorem C4_token_missing_without_provider_call_witness:
  "Header (request (Some ''bearer tok1'') (JSONObject (Some ''Admins'') None)) ''Authorization'' =
     Some ''bearer tok1'' \<and>
   \<not> prefix ''Bearer '' ''bearer tok1'' \<and>
   HandleCapabilityCreateRequest (request (Some ''bearer tok1'') (JSONObject (Some ''Admins'') None))
     (mock (120, Inr ''g-1'') (80, Inr Admins)) =
     (Responded \<lparr>Status = ''error'', Data = None, Messages =
        [\<lparr>msg_Field = None, msg_ErrCode = ''token_missing'', msg_Vals = []\<rparr>]\<rparr>, []) \<and>
   Header (request None (JSONObject (Some ''Admins'') None)) ''Authorization'' = None \<and>
   HandleCapabilityCreateRequest (request None (JSONObject (Some ''Admins'') None))
     (mock (120, Inr ''g-1'') (80, Inr Admins)) =
     (Responded \<lparr>Status = ''error'', Data = None, Messages =
        [\<lparr>msg_Field = None, msg_ErrCode = ''token_missing'', msg_Vals = []\<rparr>]\<rparr>, [])"
proof -
  let ?s = "mock (120, Inr ''g-1'') (80, Inr Admins)"
  let ?c = "request (Some ''bearer tok1'') (JSONObject (Some ''Admins'') None)"
  let ?d = "request None (JSONObject (Some ''Admins'') None)"
  have h: "Header ?c ''Authorization'' = Some ''bearer tok1''"
    by (simp add: request_def)
  have p: "\<not> prefix ''Bearer '' ''bearer tok1''"
    by simp
  have a: "Header ?d ''Authorization'' = None"
    by (simp add: request_def)
  from h p have "Header ?c ''Authorization'' = None \<or> Header ?c ''Authorization'' = Some [] \<or>
      (\<exists>h. Header ?c ''Authorization'' = Some h \<and> \<not> prefix ''Bearer '' h)"
    by simp
  from C4_token_missing_without_provider_call[OF this, of ?s]
    C4_token_missing_without_provider_call[of ?d ?s] h p a
  show ?thesis by simp
qed

text \<open>
  C5, amended in the code sent. When the create call of a validated request takes more
  than ten seconds it is cut off at the deadline and returns an error like any other; the
  error matches neither sentence of the classification, the client receives the error
  envelope with the code \<open>unknown\<close>, and the get call is not made. The handlers know
  no code for a timeout.
\<close>

theorem C5_create_timeout_is_unknown:
  assumes "validated c token req"
    and "10000 < fst (CreateGroup_reply (dep_goclock s) token (dep_realm s) (group_of req))"
  shows "HandleGroupCreationRequest c s =
           (Responded \<lparr>Status = ''error'', Data = None, Messages =
              [\<lparr>msg_Field = None, msg_ErrCode = ''unknown'', msg_Vals = []\<rparr>]\<rparr>,
            [CreateGroupCall (Clock c + 10000) (Clock c) token (dep_realm s) (group_of req)]) \<and>
         HandleCapabilityCreateRequest c s =
           (Responded \<lparr>Status = ''error'', Data = None, Messages =
              [\<lparr>msg_Field = None, msg_ErrCode = ''unknown'', msg_Vals = []\<rparr>]\<rparr>,
            [CreateGroupCall (Clock c + 10000) (Clock c) token (dep_realm s) (group_of req)])"
proof -
  from assms(1) obtain name where name: "req_Name req = Some name"
    by (auto simp: validated_def validate_Struct_passes)
  from assms(2) have cut: "snd (create_call c s token req) = Inl DeadlineExceeded"
    by (simp add: create_call_def CreateGroup_def under_deadline_def WithTimeout_def Second_def)
  have "DeadlineExceeded \<noteq> Unauthorized_error" "DeadlineExceeded \<noteq> conflict_template name"
    by (simp_all add: DeadlineExceeded_def Unauthorized_error_def conflict_template_def)
  then show ?thesis
    by (simp add: group_create_failed[OF assms(1) name cut]
        capability_create_failed[OF assms(1) name cut]
        NewErrorResponse_def NewResponse_def ErrorStatus_def)
qed

theorem C5_create_timeout_is_unknown_witness:
  "validated (request (Some ''Bearer tok1'') (JSONObject (Some ''Admins'') None)) ''tok1''
     \<lparr>req_Name = Some ''Admins'', req_Attributes = None\<rparr> \<and>
   fst (CreateGroup_reply (dep_goclock (mock (10001, Inr ''g-1'') (80, Inr Admins))) ''tok1''
          ''idshield'' (group_of \<lparr>req_Name = Some ''Admins'', req_Attributes = None\<rparr>)) = 10001 \<and>
   fst (HandleCapabilityCreateRequest
          (request (Some ''Bearer tok1'') (JSONObject (Some ''Admins'') None))
          (mock (10001, Inr ''g-1'') (80, Inr Admins))) =
     Responded \<lparr>Status = ''error'', Data = None, Messages =
        [\<lparr>msg_Field = None, msg_ErrCode = ''unknown'', msg_Vals = []\<rparr>]\<rparr>"
proof -
  let ?c = "request (Some ''Bearer tok1'') (JSONObject (Some ''Admins'') None)"
  let ?s = "mock (10001, Inr ''g-1'') (80, Inr Admins)"
  let ?req = "\<lparr>req_Name = Some ''Admins'', req_Attributes = None\<rparr>"
  have v: "validated ?c ''tok1'' ?req"
    by (simp add: scenario_defs collaborator_defs)
  have d: "fst (CreateGroup_reply (dep_goclock ?s) ''tok1'' ''idshield'' (group_of ?req)) = 10001"
    by (simp add: mock_def)
  have r: "dep_realm ?s = ''idshield''"
    by (simp add: mock_def)
  have "10000 < fst (CreateGroup_reply (dep_goclock ?s) ''tok1'' (dep_realm ?s) (group_of ?req))"
    by (simp add: mock_def)
  from C5_create_timeout_is_unknown[OF v this] v d show ?thesis
    by simp
qed

text \<open>C5 as stated fails on a create call that takes 10001 milliseconds: the code sent is
  \<open>unknown\<close>, not \<open>provider_timeout\<close>.\<close>

theorem C5_timeout_code_counterexample:
  "codes_of (fst (HandleGroupCreationRequest
       (request (Some ''Bearer tok1'') (JSONObject (Some ''Admins'') None))
       (mock (10001, Inr ''g-1'') (80, Inr Admins)))) = [''unknown''] \<and>
   codes_of (fst (HandleCapabilityCreateRequest
       (request (Some ''Bearer tok1'') (JSONObject (Some ''Admins'') None))
       (mock (10001, Inr ''g-1'') (80, Inr Admins)))) = [''unknown''] \<and>
   codes_of (fst (HandleCapabilityCreateRequest
       (request (Some ''Bearer tok1'') (JSONObject (Some ''Admins'') None))
       (mock (10001, Inr ''g-1'') (80, Inr Admins)))) \<noteq> [''provider_timeout'']"
  by (simp add: handler_defs collaborator_defs scenario_defs view_defs)

text \<open>
  C6. A successful creation should be answered with status "success" and with the id,
  name, path and attributes that the get call returned. The group handler does so. The
  capability handler, the one the server registers, builds its envelope without a status:
  on the same run the data are those of the get call and the status is the empty string.
\<close>

theorem C6_capability_success_without_status:
  "HandleCapabilityCreateRequest
     (request (Some ''Bearer tok1'') (JSONObject (Some ''Admins'') None))
     (mock (120, Inr ''g-1'') (80, Inr Admins)) =
   (Responded \<lparr>Status = '''',
      Data = Some \<lparr>resp_ID = ''g-1'', resp_Name = ''Admins'', resp_Path = Some ''/Admins'',
                   resp_Attributes = None\<rparr>,
      Messages = []\<rparr>,
    [CreateGroupCall 10000 0 ''tok1'' ''idshield''
       \<lparr>grp_ID = None, grp_Name = Some ''Admins'', grp_Path = None, grp_Attributes = None\<rparr>,
     GetGroupCall 10000 120 ''tok1'' ''idshield'' ''g-1'']) \<and>
   status_of (fst (HandleCapabilityCreateRequest
     (request (Some ''Bearer tok1'') (JSONObject (Some ''Admins'') None))
     (mock (120, Inr ''g-1'') (80, Inr Admins)))) \<noteq> Some ''success'' \<and>
   status_of (fst (HandleGroupCreationRequest
     (request (Some ''Bearer tok1'') (JSONObject (Some ''Admins'') None))
     (mock (120, Inr ''g-1'') (80, Inr Admins)))) = Some ''success''"
  by (simp add: handler_defs collaborator_defs scenario_defs view_defs)

text \<open>What holds of C6 in both handlers: whenever a request ends with data, the data are
  field for field those of the group the get call returned for the created id.\<close>

lemma success_data_from_get:
  assumes "validated c token req"
    and "create_call c s token req = (t, Inr gid)"
    and "snd (GetGroup (dep_goclock s) (Clock c + 10000) t token (dep_realm s) gid) = Inr groupInfo"
    and "grp_ID groupInfo = Some i"
    and "grp_Name groupInfo = Some n"
  shows "data_of (fst (HandleGroupCreationRequest c s)) =
           Some \<lparr>resp_ID = i, resp_Name = n, resp_Path = grp_Path groupInfo,
                 resp_Attributes = grp_Attributes groupInfo\<rparr>"
    and "data_of (fst (HandleCapabilityCreateRequest c s)) =
           Some \<lparr>resp_ID = i, resp_Name = n, resp_Path = grp_Path groupInfo,
                 resp_Attributes = grp_Attributes groupInfo\<rparr>"
    and "status_of (fst (HandleGroupCreationRequest c s)) = Some ''success''"
  using assms(3-5)
  by (simp_all add: group_created[OF assms(1,2)] capability_created[OF assms(1,2)] view_defs)

text \<open>
  C7, amended to one deadline. The handlers create one context before the create call and
  hand the same context to both calls. When the create call returns an id after \<open>d1\<close>
  milliseconds, the get call starts at that time and runs against the same deadline, ten
  seconds after the context was created and not after its own start; when the two calls
  together take more than ten seconds the get call is cut off and the request ends without
  a response.
\<close>

theorem C7_one_deadline_for_both_calls:
  assumes "validated c token req"
    and "CreateGroup_reply (dep_goclock s) token (dep_realm s) (group_of req) = (d1, Inr gid)"
    and "d1 \<le> 10000"
    and "GetGroup_reply (dep_goclock s) token (dep_realm s) gid = (d2, answer)"
  shows "snd (HandleGroupCreationRequest c s) =
           [CreateGroupCall (Clock c + 10000) (Clock c) token (dep_realm s) (group_of req),
            GetGroupCall (Clock c + 10000) (Clock c + d1) token (dep_realm s) gid] \<and>
         snd (HandleCapabilityCreateRequest c s) =
           [CreateGroupCall (Clock c + 10000) (Clock c) token (dep_realm s) (group_of req),
            GetGroupCall (Clock c + 10000) (Clock c + d1) token (dep_realm s) gid] \<and>
         (10000 < d1 + d2 \<longrightarrow>
            fst (HandleGroupCreationRequest c s) = NoResponse \<and>
            fst (HandleCapabilityCreateRequest c s) = NoResponse)"
proof -
  from assms(2,3) have created: "create_call c s token req = (Clock c + d1, Inr gid)"
    by (simp add: create_call_def CreateGroup_def under_deadline_def WithTimeout_def Second_def)
  have late: "snd (GetGroup (dep_goclock s) (Clock c + 10000) (Clock c + d1) token (dep_realm s) gid) =
                Inl DeadlineExceeded" if "10000 < d1 + d2"
    using that assms(4) by (simp add: GetGroup_def under_deadline_def)
  show ?thesis
    by (simp add: group_created[OF assms(1) created] capability_created[OF assms(1) created] late)
qed

theorem C7_one_deadline_for_both_calls_witness:
  "validated (request (Some ''Bearer tok1'') (JSONObject (Some ''Admins'') None)) ''tok1''
     \<lparr>req_Name = Some ''Admins'', req_Attributes = None\<rparr> \<and>
   CreateGroup_reply (dep_goclock (mock (6000, Inr ''g-1'') (6000, Inr Admins))) ''tok1''
     ''idshield'' (group_of \<lparr>req_Name = Some ''Admins'', req_Attributes = None\<rparr>) =
     (6000, Inr ''g-1'') \<and>
   GetGroup_reply (dep_goclock (mock (6000, Inr ''g-1'') (6000, Inr Admins))) ''tok1''
     ''idshield'' ''g-1'' = (6000, Inr Admins) \<and>
   (10000::nat) < 6000 + 6000 \<and>
   snd (HandleCapabilityCreateRequest
          (request (Some ''Bearer tok1'') (JSONObject (Some ''Admins'') None))
          (mock (6000, Inr ''g-1'') (6000, Inr Admins))) =
     [CreateGroupCall 10000 0 ''tok1'' ''idshield''
        (group_of \<lparr>req_Name = Some ''Admins'', req_Attributes = None\<rparr>),
      GetGroupCall 10000 6000 ''tok1'' ''idshield'' ''g-1''] \<and>
   fst (HandleCapabilityCreateRequest
          (request (Some ''Bearer tok1'') (JSONObject (Some ''Admins'') None))
          (mock (6000, Inr ''g-1'') (6000, Inr Admins))) = NoResponse"
proof -
  let ?c = "request (Some ''Bearer tok1'') (JSONObject (Some ''Admins'') None)"
  let ?s = "mock (6000, Inr ''g-1'') (6000, Inr Admins)"
  let ?req = "\<lparr>req_Name = Some ''Admins'', req_Attributes = None\<rparr>"
  have v: "validated ?c ''tok1'' ?req"
    by (simp add: scenario_defs collaborator_defs)
  have r: "dep_realm ?s = ''idshield''" and k: "Clock ?c = 0"
    by (simp_all add: mock_def request_def)
  have cr: "CreateGroup_reply (dep_goclock ?s) ''tok1'' (dep_realm ?s) (group_of ?req) =
              (6000, Inr ''g-1'')"
    by (simp add: mock_def)
  have gr: "GetGroup_reply (dep_goclock ?s) ''tok1'' (dep_realm ?s) ''g-1'' = (6000, Inr Admins)"
    by (simp add: mock_def)
  have le: "(6000::nat) \<le> 10000"
    by simp
  from C7_one_deadline_for_both_calls[OF v cr le gr] v cr gr show ?thesis
    by (simp add: r k)
qed

text \<open>C7 as stated fails when either call takes six seconds: a get call with ten seconds of
  its own, started at 6000, returns the group; the handlers' get call runs against the
  deadline 10000 of the shared context, is cut off, and the request ends without a
  response.\<close>

theorem C7_shared_deadline_counterexample:
  "fst (GetGroup_reply (dep_goclock (mock (6000, Inr ''g-1'') (6000, Inr Admins)))
          ''tok1'' ''idshield'' ''g-1'') = 6000 \<and>
   snd (GetGroup (dep_goclock (mock (6000, Inr ''g-1'') (6000, Inr Admins)))
          (WithTimeout 6000 (10 * Second)) 6000 ''tok1'' ''idshield'' ''g-1'') = Inr Admins \<and>
   HandleCapabilityCreateRequest
     (request (Some ''Bearer tok1'') (JSONObject (Some ''Admins'') None))
     (mock (6000, Inr ''g-1'') (6000, Inr Admins)) =
   (NoResponse,
    [CreateGroupCall 10000 0 ''tok1'' ''idshield''
       \<lparr>grp_ID = None, grp_Name = Some ''Admins'', grp_Path = None, grp_Attributes = None\<rparr>,
     GetGroupCall 10000 6000 ''tok1'' ''idshield'' ''g-1'']) \<and>
   HandleGroupCreationRequest
     (request (Some ''Bearer tok1'') (JSONObject (Some ''Admins'') None))
     (mock (6000, Inr ''g-1'') (6000, Inr Admins)) =
   (NoResponse,
    [CreateGroupCall 10000 0 ''tok1'' ''idshield''
       \<lparr>grp_ID = None, grp_Name = Some ''Admins'', grp_Path = None, grp_Attributes = None\<rparr>,
     GetGroupCall 10000 6000 ''tok1'' ''idshield'' ''g-1''])"
  by (simp add: handler_defs collaborator_defs scenario_defs)

text \<open>
  C8. On identical input the group handler and the capability handler should send the
  same envelope. On a successful creation they do not: with the same header, body and
  provider answers the group handler sends status "success" and the capability handler
  sends the same data under the empty status.
\<close>

theorem C8_success_envelopes_differ:
  "HandleGroupCreationRequest
     (request (Some ''Bearer tok1'') (JSONObject (Some ''Admins'') None))
     (mock (120, Inr ''g-1'') (80, Inr Admins)) =
   (Responded \<lparr>Status = ''success'',
      Data = Some \<lparr>resp_ID = ''g-1'', resp_Name = ''Admins'', resp_Path = Some ''/Admins'',
                   resp_Attributes = None\<rparr>,
      Messages = []\<rparr>,
    [CreateGroupCall 10000 0 ''tok1'' ''idshield''
       \<lparr>grp_ID = None, grp_Name = Some ''Admins'', grp_Path = None, grp_Attributes = None\<rparr>,
     GetGroupCall 10000 120 ''tok1'' ''idshield'' ''g-1'']) \<and>
   fst (HandleGroupCreationRequest
          (request (Some ''Bearer tok1'') (JSONObject (Some ''Admins'') None))
          (mock (120, Inr ''g-1'') (80, Inr Admins))) \<noteq>
   fst (HandleCapabilityCreateRequest
          (request (Some ''Bearer tok1'') (JSONObject (Some ''Admins'') None))
          (mock (120, Inr ''g-1'') (80, Inr Admins)))"
  by (simp add: handler_defs collaborator_defs scenario_defs)

text \<open>The status of a successful creation is the only difference. On every input both
  handlers make the same provider calls and send the same data and the same messages,
  and whenever the capability handler's outcome carries no data the two runs are equal
  altogether, status included.\<close>

lemma handlers_differ_in_success_status_only:
  shows "snd (HandleGroupCreationRequest c s) = snd (HandleCapabilityCreateRequest c s)"
    and "data_of (fst (HandleGroupCreationRequest c s)) =
           data_of (fst (HandleCapabilityCreateRequest c s))"
    and "messages_of (fst (HandleGroupCreationRequest c s)) =
           messages_of (fst (HandleCapabilityCreateRequest c s))"
    and "data_of (fst (HandleCapabilityCreateRequest c s)) = None \<Longrightarrow>
           HandleGroupCreationRequest c s = HandleCapabilityCreateRequest c s"
proof -
  have "snd (HandleGroupCreationRequest c s) = snd (HandleCapabilityCreateRequest c s) \<and>
        data_of (fst (HandleGroupCreationRequest c s)) =
          data_of (fst (HandleCapabilityCreateRequest c s)) \<and>
        messages_of (fst (HandleGroupCreationRequest c s)) =
          messages_of (fst (HandleCapabilityCreateRequest c s)) \<and>
        (data_of (fst (HandleCapabilityCreateRequest c s)) = None \<longrightarrow>
           HandleGroupCreationRequest c s = HandleCapabilityCreateRequest c s)"
  proof (cases rule: handler_paths[of c s])
    case (token_missing e)
    then show ?thesis by simp
  next
    case (invalid_json token e)
    then show ?thesis by simp
  next
    case (absent token req)
    then show ?thesis by simp
  next
    case (create_failed token req name t err)
    then have "snd (create_call c s token req) = Inl err" by simp
    with create_failed show ?thesis
      by (simp add: group_create_failed[of c token req name s err]
          capability_create_failed[of c token req name s err])
  next
    case (created token req name t gid)
    then show ?thesis
      by (simp add: group_created[of c token req s t gid] capability_created[of c token req s t gid]
          view_defs split: sum.splits option.splits)
  qed
  then show "snd (HandleGroupCreationRequest c s) = snd (HandleCapabilityCreateRequest c s)"
    and "data_of (fst (HandleGroupCreationRequest c s)) =
           data_of (fst (HandleCapabilityCreateRequest c s))"
    and "messages_of (fst (HandleGroupCreationRequest c s)) =
           messages_of (fst (HandleCapabilityCreateRequest c s))"
    and "data_of (fst (HandleCapabilityCreateRequest c s)) = None \<Longrightarrow>
           HandleGroupCreationRequest c s = HandleCapabilityCreateRequest c s"
    by simp_all
qed

text \<open>
  C9, amended to a function of two arguments. The classification is a function of the raw
  error string and the submitted name, since the conflict sentence is compared with the
  sentence built from the name of the request at hand: two requests with the same
  submitted name whose create calls return the same raw error are answered alike, by
  either handler, whatever their tokens, attributes, realms and clocks.
\<close>

theorem C9_classification_by_error_and_name:
  assumes "validated c1 token1 req1"
    and "validated c2 token2 req2"
    and "req_Name req1 = req_Name req2"
    and "snd (create_call c1 s1 token1 req1) = Inl err"
    and "snd (create_call c2 s2 token2 req2) = Inl err"
  shows "fst (HandleGroupCreationRequest c1 s1) = fst (HandleGroupCreationRequest c2 s2) \<and>
         fst (HandleCapabilityCreateRequest c1 s1) = fst (HandleCapabilityCreateRequest c2 s2) \<and>
         fst (HandleGroupCreationRequest c1 s1) = fst (HandleCapabilityCreateRequest c2 s2)"
proof -
  from assms(1) obtain name where n1: "req_Name req1 = Some name"
    by (auto simp: validated_def validate_Struct_passes)
  with assms(3) have n2: "req_Name req2 = Some name"
    by simp
  show ?thesis
    by (simp add: group_create_failed[OF assms(1) n1 assms(4)]
        group_create_failed[OF assms(2) n2 assms(5)]
        capability_create_failed[OF assms(1) n1 assms(4)]
        capability_create_failed[OF assms(2) n2 assms(5)])
qed

theorem C9_classification_by_error_and_name_witness:
  "validated (request (Some ''Bearer tok1'') (JSONObject (Some ''Admins'') None)) ''tok1''
     \<lparr>req_Name = Some ''Admins'', req_Attributes = None\<rparr> \<and>
   validated (request (Some ''Bearer tok2'') (JSONObject (Some ''Admins'') (Some Map.empty))) ''tok2''
     \<lparr>req_Name = Some ''Admins'', req_Attributes = Some Map.empty\<rparr> \<and>
   snd (create_call (request (Some ''Bearer tok1'') (JSONObject (Some ''Admins'') None))
          (mock (120, Inl Admins_exists) (80, Inr Admins)) ''tok1''
          \<lparr>req_Name = Some ''Admins'', req_Attributes = None\<rparr>) = Inl Admins_exists \<and>
   snd (create_call (request (Some ''Bearer tok2'') (JSONObject (Some ''Admins'') (Some Map.empty)))
          (mock (7, Inl Admins_exists) (9, Inl not_found)) ''tok2''
          \<lparr>req_Name = Some ''Admins'', req_Attributes = Some Map.empty\<rparr>) = Inl Admins_exists \<and>
   fst (HandleGroupCreationRequest
          (request (Some ''Bearer tok1'') (JSONObject (Some ''Admins'') None))
          (mock (120, Inl Admins_exists) (80, Inr Admins))) =
   fst (HandleCapabilityCreateRequest
          (request (Some ''Bearer tok2'') (JSONObject (Some ''Admins'') (Some Map.empty)))
          (mock (7, Inl Admins_exists) (9, Inl not_found)))"
proof -
  let ?c1 = "request (Some ''Bearer tok1'') (JSONObject (Some ''Admins'') None)"
  let ?s1 = "mock (120, Inl Admins_exists) (80, Inr Admins)"
  let ?r1 = "\<lparr>req_Name = Some ''Admins'', req_Attributes = None\<rparr>"
  let ?c2 = "request (Some ''Bearer tok2'') (JSONObject (Some ''Admins'') (Some Map.empty))"
  let ?s2 = "mock (7, Inl Admins_exists) (9, Inl not_found)"
  let ?r2 = "\<lparr>req_Name = Some ''Admins'', req_Attributes = Some Map.empty\<rparr>"
  have v1: "validated ?c1 ''tok1'' ?r1" and v2: "validated ?c2 ''tok2'' ?r2"
    by (simp_all add: scenario_defs collaborator_defs)
  have n: "req_Name ?r1 = req_Name ?r2"
    by simp
  have e1: "snd (create_call ?c1 ?s1 ''tok1'' ?r1) = Inl Admins_exists"
    and e2: "snd (create_call ?c2 ?s2 ''tok2'' ?r2) = Inl Admins_exists"
    by (simp_all add: scenario_defs collaborator_defs)
  from C9_classification_by_error_and_name[OF v1 v2 n e1 e2]
  have "fst (HandleGroupCreationRequest ?c1 ?s1) = fst (HandleCapabilityCreateRequest ?c2 ?s2)"
    by (elim conjE)
  with v1 v2 e1 e2 show ?thesis
    by (intro conjI)
qed

text \<open>C9 as stated fails on one raw error string returned to two requests with different
  names: a name conflict for the one, unknown for the other.\<close>

theorem C9_same_error_other_name_counterexample:
  "snd (create_call (request (Some ''Bearer tok1'') (JSONObject (Some ''Admins'') None))
          (mock (120, Inl Admins_exists) (80, Inr Admins)) ''tok1''
          \<lparr>req_Name = Some ''Admins'', req_Attributes = None\<rparr>) = Inl Admins_exists \<and>
   snd (create_call (request (Some ''Bearer tok1'') (JSONObject (Some ''Users'') None))
          (mock (120, Inl Admins_exists) (80, Inr Admins)) ''tok1''
          \<lparr>req_Name = Some ''Users'', req_Attributes = None\<rparr>) = Inl Admins_exists \<and>
   codes_of (fst (HandleCapabilityCreateRequest
       (request (Some ''Bearer tok1'') (JSONObject (Some ''Admins'') None))
       (mock (120, Inl Admins_exists) (80, Inr Admins)))) = [''name already exist''] \<and>
   codes_of (fst (HandleCapabilityCreateRequest
       (request (Some ''Bearer tok1'') (JSONObject (Some ''Users'') None))
       (mock (120, Inl Admins_exists) (80, Inr Admins)))) = [''unknown''] \<and>
   codes_of (fst (HandleGroupCreationRequest
       (request (Some ''Bearer tok1'') (JSONObject (Some ''Admins'') None))
       (mock (120, Inl Admins_exists) (80, Inr Admins)))) = [''name already exist''] \<and>
   codes_of (fst (HandleGroupCreationRequest
       (request (Some ''Bearer tok1'') (JSONObject (Some ''Users'') None))
       (mock (120, Inl Admins_exists) (80, Inr Admins)))) = [''unknown'']"
  by (simp add: handler_defs collaborator_defs scenario_defs view_defs)

text \<open>
  C10. Whenever a handler has made a provider call, and so whenever control stands in the
  branch that classifies the error of the create call, the body was bound to a request
  whose \<open>Name\<close> pointer is not \<open>nil\<close>; the dereference that builds the conflict sentence
  never faults in either handler. A \<open>nil\<close> name raises the validation error, and the
  handlers return on a non-empty list of validation errors before they call the provider.
\<close>

theorem C10_name_present_at_classification:
  "(snd (HandleGroupCreationRequest c s) \<noteq> [] \<longrightarrow>
      (\<exists>req name. BindJSON c = Inr req \<and> req_Name req = Some name)) \<and>
   (snd (HandleCapabilityCreateRequest c s) \<noteq> [] \<longrightarrow>
      (\<exists>req name. BindJSON c = Inr req \<and> req_Name req = Some name)) \<and>
   fst (HandleGroupCreationRequest c s) \<noteq> Panicked Conflict_Name \<and>
   fst (HandleCapabilityCreateRequest c s) \<noteq> Panicked Conflict_Name"
proof (cases rule: handler_paths[of c s])
  case (token_missing e)
  then show ?thesis by simp
next
  case (invalid_json token e)
  then show ?thesis by simp
next
  case (absent token req)
  then show ?thesis by simp
next
  case (create_failed token req name t err)
  then have "snd (create_call c s token req) = Inl err" by simp
  with create_failed show ?thesis
    by (simp add: group_create_failed[of c token req name s err]
        capability_create_failed[of c token req name s err] validated_def)
next
  case (created token req name t gid)
  then show ?thesis
    by (simp add: group_created[of c token req s t gid] capability_created[of c token req s t gid]
        validated_def split: sum.splits option.splits)
qed

theorem C10_name_present_at_classification_witness:
  "snd (HandleCapabilityCreateRequest
          (request (Some ''Bearer tok1'') (JSONObject (Some ''Admins'') None))
          (mock (120, Inl Admins_exists) (80, Inr Admins))) =
     [CreateGroupCall 10000 0 ''tok1'' ''idshield''
        \<lparr>grp_ID = None, grp_Name = Some ''Admins'', grp_Path = None, grp_Attributes = None\<rparr>] \<and>
   BindJSON (request (Some ''Bearer tok1'') (JSONObject (Some ''Admins'') None)) =
     Inr \<lparr>req_Name = Some ''Admins'', req_Attributes = None\<rparr> \<and>
   fst (HandleCapabilityCreateRequest
          (request (Some ''Bearer tok1'') (JSONObject (Some ''Admins'') None))
          (mock (120, Inl Admins_exists) (80, Inr Admins))) \<noteq> Panicked Conflict_Name"
proof -
  let ?c = "request (Some ''Bearer tok1'') (JSONObject (Some ''Admins'') None)"
  let ?s = "mock (120, Inl Admins_exists) (80, Inr Admins)"
  have calls: "snd (HandleCapabilityCreateRequest ?c ?s) =
     [CreateGroupCall 10000 0 ''tok1'' ''idshield''
        \<lparr>grp_ID = None, grp_Name = Some ''Admins'', grp_Path = None, grp_Attributes = None\<rparr>]"
    by (simp add: handler_defs collaborator_defs scenario_defs)
  have bound: "BindJSON ?c = Inr \<lparr>req_Name = Some ''Admins'', req_Attributes = None\<rparr>"
    by (simp add: BindJSON_def request_def)
  from C10_name_present_at_classification[of ?c ?s] calls bound show ?thesis
    by simp
qed

end
